theory Spec2Isabelle
  imports Complex_Main "HOL-Library.Multiset"
begin

section \<open>The composite kernel of the notebook "Mixing TensorFlow models with GPflow"\<close>

text \<open>
  The notebook defines a kernel class that owns a convolutional network and a base kernel:
  \<^verbatim>\<open>
  class KernelWithConvNN(gpflow.kernels.Kernel):
      def __init__(self, image_shape, output_dim, base_kernel, batch_size=None):
          ...
          self.base_kernel = base_kernel
          self.cnn = tf.keras.Sequential([...])

      def K(self, a_input, b_input=None):
          transformed_a = self.cnn(a_input)
          transformed_b = self.cnn(b_input) if b_input is not None else b_input
          return self.base_kernel.K(transformed_a, transformed_b)

      def K_diag(self, a_input):
          transformed_a = self.cnn(a_input)
          return self.base_kernel.K_diag(transformed_a)
  \<close>
  The base kernel is an object of the library class \<open>gpflow.kernels.Kernel\<close>. The notebook
  uses three of its entry points: the method \<open>K(X, X2=None)\<close> (full covariance matrix),
  the method \<open>K_diag(X)\<close> (variances only) and the call \<open>kernel(X, X2)\<close>. The library is
  not part of the repository, so a base kernel is a record of these three functions. The
  types of a batch in the network's output space (\<open>'e\<close>), of a covariance matrix (\<open>'m\<close>)
  and of a variance vector (\<open>'v\<close>) are left open; an optional argument is an \<open>option\<close>.
\<close>

record ('e, 'm, 'v) Kernel =
  kernel_K :: "'e \<Rightarrow> 'e option \<Rightarrow> 'm"
  kernel_K_diag :: "'e \<Rightarrow> 'v"
  kernel_call :: "'e \<Rightarrow> 'e option \<Rightarrow> 'm"

text \<open>
  The network \<open>self.cnn\<close> is a Keras model applied to a batch of raw inputs (\<open>'x\<close>); between
  two optimizer steps it is a function from raw batches to batches in the output space.
\<close>

record ('x, 'e, 'm, 'v) KernelWithConvNN =
  base_kernel :: "('e, 'm, 'v) Kernel"
  cnn :: "'x \<Rightarrow> 'e"

definition KernelWithConvNN_K ::
  "('x, 'e, 'm, 'v) KernelWithConvNN \<Rightarrow> 'x \<Rightarrow> 'x option \<Rightarrow> 'm" where
  "KernelWithConvNN_K self a_input b_input =
     (let transformed_a = cnn self a_input;
          transformed_b = (case b_input of Some b \<Rightarrow> Some (cnn self b) | None \<Rightarrow> None)
      in kernel_K (base_kernel self) transformed_a transformed_b)"

definition KernelWithConvNN_K_diag ::
  "('x, 'e, 'm, 'v) KernelWithConvNN \<Rightarrow> 'x \<Rightarrow> 'v" where
  "KernelWithConvNN_K_diag self a_input =
     (let transformed_a = cnn self a_input
      in kernel_K_diag (base_kernel self) transformed_a)"

subsection \<open>The covariances registered for inducing points in the network's output space\<close>

text \<open>
  \<^verbatim>\<open>
  class KernelSpaceInducingPoints(gpflow.inducing_variables.InducingPoints):
      pass

  @gpflow.covariances.Kuu.register(KernelSpaceInducingPoints, KernelWithConvNN)
  def Kuu(inducing_variable, kernel, jitter=None):
      func = gpflow.covariances.Kuu.dispatch(gpflow.inducing_variables.InducingPoints,
                                             gpflow.kernels.Kernel)
      return func(inducing_variable, kernel.base_kernel, jitter=jitter)

  @gpflow.covariances.Kuf.register(KernelSpaceInducingPoints, KernelWithConvNN, object)
  def Kuf(inducing_variable, kernel, a_input):
      return kernel.base_kernel(inducing_variable.Z, kernel.cnn(a_input))
  \<close>
  The subclass adds nothing to \<open>InducingPoints\<close>: an inducing variable is its field \<open>Z\<close>.
  The library's dispatcher \<open>gpflow.covariances.Kuu\<close> is a table from a pair of classes to
  an implementation; the table is the library's, so \<open>Kuu\<close> takes it as an argument.
  (The argument \<open>kernel\<close> of the source is written \<open>kern\<close>: \<open>kernel\<close> is a constant of HOL.)
\<close>

record 'e InducingPoints =
  Z :: "'e"

datatype inducing_class = InducingPoints_class | KernelSpaceInducingPoints_class

datatype kernel_class = Kernel_class | KernelWithConvNN_class

type_synonym ('e, 'm, 'v, 'j, 'r) Kuu_impl =
  "'e InducingPoints \<Rightarrow> ('e, 'm, 'v) Kernel \<Rightarrow> 'j option \<Rightarrow> 'r"

definition Kuu ::
  "(inducing_class \<Rightarrow> kernel_class \<Rightarrow> ('e, 'm, 'v, 'j, 'r) Kuu_impl) \<Rightarrow>
   'e InducingPoints \<Rightarrow> ('x, 'e, 'm, 'v) KernelWithConvNN \<Rightarrow> 'j option \<Rightarrow> 'r" where
  "Kuu dispatch inducing_variable kern jitter =
     (let func = dispatch InducingPoints_class Kernel_class
      in func inducing_variable (base_kernel kern) jitter)"

definition Kuf ::
  "'e InducingPoints \<Rightarrow> ('x, 'e, 'm, 'v) KernelWithConvNN \<Rightarrow> 'x \<Rightarrow> 'm" where
  "Kuf inducing_variable kern a_input =
     kernel_call (base_kernel kern) (Z inducing_variable) (Some (cnn kern a_input))"

subsection \<open>A base kernel that records how it was entered\<close>

text \<open>
  Since the result types of a base kernel are open, a base kernel may return a description
  of the entry point it was called through and of the arguments it received. What a
  composite kernel built on it returns then shows which evaluation mode of the base kernel
  was used.
\<close>

datatype 'e evaluation = Full_matrix 'e "'e option" | Diagonal_only 'e | Called 'e "'e option"

definition recording_kernel :: "('e, 'e evaluation, 'e evaluation) Kernel" where
  "recording_kernel =
     \<lparr>kernel_K = Full_matrix, kernel_K_diag = Diagonal_only, kernel_call = Called\<rparr>"

subsection \<open>Matrices, the diagonal of a matrix and the linear kernel\<close>

text \<open>
  A batch in the output space of the network is a list of row vectors and a covariance
  matrix a list of rows. \<open>diag_part\<close> is the main diagonal of a matrix (as
  \<open>tf.linalg.diag_part\<close>: of a matrix that is not square, the diagonal of its leading
  square block).
\<close>

definition diag_part :: "'a list list \<Rightarrow> 'a list" where
  "diag_part M =
     map (\<lambda>i. M ! i ! i) [0 ..< (case M of [] \<Rightarrow> 0 | r # _ \<Rightarrow> min (length M) (length r))]"

definition matmul_transpose_b :: "'a::semiring_0 list list \<Rightarrow> 'a list list \<Rightarrow> 'a list list" where
  "matmul_transpose_b A B = map (\<lambda>a. map (\<lambda>b. sum_list (map2 (*) a b)) B) A"

text \<open>
  Modelled from the spec: the linear base kernel of the end-to-end scenario ("base_kernel =
  linear kernel", "the exact linear-kernel Gram matrix"); the class \<open>gpflow.kernels.Linear\<close>
  is the library's and is not in the repository. The covariance of two vectors is
  \<open>variance\<close> times their inner product. As in the library, the rows of the first batch
  are scaled by the variance before the product with the transposed second batch, an absent
  second batch stands for the first one, and \<open>K_diag\<close> sums the scaled squares of each row.
\<close>

definition Linear_K :: "'a::comm_semiring_0 \<Rightarrow> 'a list list \<Rightarrow> 'a list list option \<Rightarrow> 'a list list" where
  "Linear_K variance X X2 =
     (case X2 of
        None \<Rightarrow> matmul_transpose_b (map (map (\<lambda>t. t * variance)) X) X
      | Some Y \<Rightarrow> matmul_transpose_b (map (map (\<lambda>t. t * variance)) X) Y)"

definition Linear_K_diag :: "'a::comm_semiring_0 \<Rightarrow> 'a list list \<Rightarrow> 'a list" where
  "Linear_K_diag variance X = map (\<lambda>x. sum_list (map (\<lambda>t. t * t * variance) x)) X"

definition Linear :: "'a::comm_semiring_0 \<Rightarrow> ('a list list, 'a list list, 'a list) Kernel" where
  "Linear variance =
     \<lparr>kernel_K = Linear_K variance, kernel_K_diag = Linear_K_diag variance,
      kernel_call = Linear_K variance\<rparr>"

text \<open>The Gram matrix of two vectors under the linear kernel, entry by entry.\<close>

definition inner_product :: "'a::comm_semiring_0 list \<Rightarrow> 'a list \<Rightarrow> 'a" where
  "inner_product x y = (\<Sum>i<length x. x ! i * y ! i)"

definition linear_gram :: "'a::comm_semiring_0 \<Rightarrow> 'a list \<Rightarrow> 'a list \<Rightarrow> 'a list list" where
  "linear_gram variance x y =
     [[variance * inner_product x x, variance * inner_product x y],
      [variance * inner_product y x, variance * inner_product y y]]"

subsection \<open>Two more base kernels of the library\<close>

text \<open>
  The library kernel \<open>gpflow.kernels.White\<close>, which is not in the repository; the spec does
  not describe it. With the second batch absent its \<open>K\<close> is the diagonal matrix of the
  variance, one row per point; with a second batch given it is the matrix of zeros, one row
  per point of the first batch and one column per point of the second. Its \<open>K_diag\<close> is the
  variance for each point.
\<close>

definition White_K :: "'a::zero \<Rightarrow> 'e list \<Rightarrow> 'e list option \<Rightarrow> 'a list list" where
  "White_K variance X X2 =
     (case X2 of
        None \<Rightarrow> map (\<lambda>i. map (\<lambda>j. if i = j then variance else 0) [0 ..< length X]) [0 ..< length X]
      | Some Y \<Rightarrow> map (\<lambda>x. map (\<lambda>y. 0) Y) X)"

definition White_K_diag :: "'a::zero \<Rightarrow> 'e list \<Rightarrow> 'a list" where
  "White_K_diag variance X = map (\<lambda>x. variance) X"

definition White :: "'a::zero \<Rightarrow> ('e list, 'a list list, 'a list) Kernel" where
  "White variance =
     \<lparr>kernel_K = White_K variance, kernel_K_diag = White_K_diag variance,
      kernel_call = White_K variance\<rparr>"

text \<open>
  The library computes in floating point: the result of each multiplication and of each
  addition is rounded. \<open>round_to_bits p\<close> rounds a real number to the nearest binary
  floating-point number with \<open>p\<close> significant bits, a tie going to the even significand;
  the range of the exponent is not bounded (no overflow, no underflow). \<open>float64\<close> is the
  rounding of the default float of the notebooks, 53 significant bits.
\<close>

definition round_half_even :: "real \<Rightarrow> int" where
  "round_half_even x =
     (let f = \<lfloor>x\<rfloor>; d = x - of_int f
      in if d < 1 / 2 then f else if 1 / 2 < d then f + 1 else if even f then f else f + 1)"

fun bit_length :: "nat \<Rightarrow> nat" where
  "bit_length n = (if n = 0 then 0 else Suc (bit_length (n div 2)))"

definition pow2 :: "int \<Rightarrow> real" where
  "pow2 k = (if 0 \<le> k then 2 ^ nat k else 1 / 2 ^ nat (- k))"

text \<open>The exponent \<open>e\<close> of a positive number \<open>a\<close>: \<open>2 ^ e \<le> a < 2 ^ (e + 1)\<close>.\<close>

definition binary_exponent :: "real \<Rightarrow> int" where
  "binary_exponent a =
     (if 1 \<le> a then int (bit_length (nat \<lfloor>a\<rfloor>)) - 1
      else - int (bit_length (nat \<lceil>1 / a\<rceil> - 1)))"

definition round_to_bits :: "nat \<Rightarrow> real \<Rightarrow> real" where
  "round_to_bits p x =
     (if x = 0 then 0
      else let a = \<bar>x\<bar>;
               ulp = pow2 (binary_exponent a - int p + 1);
               m = round_half_even (a / ulp)
           in sgn x * of_int m * ulp)"

definition float64 :: "real \<Rightarrow> real" where
  "float64 x = round_to_bits 53 x"

text \<open>
  The linear kernel of the library as it is computed: the operations of \<open>Linear_K\<close> and
  \<open>Linear_K_diag\<close> in the same order, each result rounded by \<open>fl\<close>, a sum taken from the
  left. With the identity for \<open>fl\<close> it is the exact linear kernel above.
\<close>

definition rounded_sum :: "(real \<Rightarrow> real) \<Rightarrow> real list \<Rightarrow> real" where
  "rounded_sum fl ts = foldl (\<lambda>s t. fl (s + t)) 0 ts"

definition Linear_float_K ::
  "(real \<Rightarrow> real) \<Rightarrow> real \<Rightarrow> real list list \<Rightarrow> real list list option \<Rightarrow> real list list" where
  "Linear_float_K fl variance X X2 =
     (let scaled = map (map (\<lambda>t. fl (t * variance))) X;
          product = (\<lambda>A B. map (\<lambda>a. map (\<lambda>b. rounded_sum fl (map2 (\<lambda>s t. fl (s * t)) a b)) B) A)
      in case X2 of None \<Rightarrow> product scaled X | Some Y \<Rightarrow> product scaled Y)"

definition Linear_float_K_diag :: "(real \<Rightarrow> real) \<Rightarrow> real \<Rightarrow> real list list \<Rightarrow> real list" where
  "Linear_float_K_diag fl variance X =
     map (\<lambda>x. rounded_sum fl (map (\<lambda>t. fl (fl (t * t) * variance)) x)) X"

definition Linear_float ::
  "(real \<Rightarrow> real) \<Rightarrow> real \<Rightarrow> (real list list, real list list, real list) Kernel" where
  "Linear_float fl variance =
     \<lparr>kernel_K = Linear_float_K fl variance, kernel_K_diag = Linear_float_K_diag fl variance,
      kernel_call = Linear_float_K fl variance\<rparr>"

section \<open>The dataset of the notebook\<close>

text \<open>
  \<^verbatim>\<open>
  original_dataset, info = tfds.load(name="mnist", split=tfds.Split.TRAIN, with_info=True)
  total_num_data = info.splits["train"].num_examples
  image_shape = info.features['image'].shape
  image_size = tf.reduce_prod(image_shape)
  batch_size = 32

  def map_fn(input_slice: Dict[str, tf.Tensor]):
      updated = input_slice
      image = to_default_float(updated["image"]) / 255.
      label = to_default_float(updated["label"])
      return tf.reshape(image, [-1, image_size]), label

  autotune = tf.data.experimental.AUTOTUNE
  dataset = original_dataset\
      .shuffle(1024)\
      .batch(batch_size, drop_remainder=True)\
      .map(map_fn, num_parallel_calls=autotune)\
      .prefetch(autotune)\
      .repeat()
  \<close>
  An example of the original dataset has an image, a tensor of shape \<open>image_shape\<close> kept
  as the list of its pixels in row-major order, and a label. \<open>batch\<close> stacks consecutive
  examples, field by field.
\<close>

record example =
  feat_image :: "nat list"
  feat_label :: nat

record batched =
  images :: "nat list list"
  labels :: "nat list"

definition batch_size :: nat where
  "batch_size = 32"

definition image_size :: "nat list \<Rightarrow> nat" where
  "image_size image_shape = prod_list image_shape"

text \<open>
  Modelled from the spec: the library operation \<open>Dataset.batch(n, drop_remainder)\<close>, which
  is not in the repository ("fixed-size batches", "partial final batches are dropped"). It
  cuts the sequence into consecutive groups of \<open>n\<close> elements; the last group, when it has
  fewer than \<open>n\<close> elements, is yielded only if \<open>drop_remainder\<close> is false. (The library
  refuses \<open>n = 0\<close>; no group is produced then.)
\<close>

function batch :: "nat \<Rightarrow> bool \<Rightarrow> 'a list \<Rightarrow> 'a list list" where
  "batch n drop_remainder xs =
     (if n = 0 \<or> xs = [] then []
      else if length xs < n then (if drop_remainder then [] else [xs])
      else take n xs # batch n drop_remainder (drop n xs))"
  by pat_completeness auto
termination
  by (relation "measure (\<lambda>(n, d, xs). length xs)") auto

definition stack :: "example list \<Rightarrow> batched" where
  "stack exs = \<lparr>images = map feat_image exs, labels = map feat_label exs\<rparr>"

text \<open>
  The library operation \<open>tf.reshape(t, [-1, size])\<close>, which is not in the repository; the
  spec does not describe it. On the elements of a tensor in row-major order: rows of
  \<open>size\<close> elements each. It raises when the row count cannot be inferred, that is when
  \<open>size\<close> is zero or does not divide the number of elements.
\<close>

definition reshape :: "'a list \<Rightarrow> nat \<Rightarrow> 'a list list option" where
  "reshape elements row_size =
     (if row_size = 0 \<or> length elements mod row_size \<noteq> 0 then None
      else Some (batch row_size False elements))"

definition to_default_float :: "nat \<Rightarrow> real" where
  "to_default_float n = real n"

definition map_fn :: "nat list \<Rightarrow> batched \<Rightarrow> (real list list \<times> real list) option" where
  "map_fn image_shape input_slice =
     (let updated = input_slice;
          image = map (map (\<lambda>p. to_default_float p / 255)) (images updated);
          label = map to_default_float (labels updated)
      in case reshape (concat image) (image_size image_shape) of
           None \<Rightarrow> None
         | Some rows \<Rightarrow> Some (rows, label))"

text \<open>
  One pass over the pipeline up to \<open>repeat\<close>: the examples in the order the shuffle buffer
  releases them in this pass, cut into batches, each batch mapped. An element is \<open>None\<close>
  when drawing it raises. \<open>prefetch\<close> changes no element. The order chosen by
  \<open>shuffle(1024)\<close> is random, so the shuffle of a pass is an argument.
\<close>

definition dataset_pass ::
  "(example list \<Rightarrow> example list) \<Rightarrow> nat list \<Rightarrow> example list \<Rightarrow>
   (real list list \<times> real list) option list" where
  "dataset_pass shuffle image_shape original_dataset =
     map (map_fn image_shape) (map stack (batch batch_size True (shuffle original_dataset)))"

text \<open>
  \<open>repeat()\<close> runs pass after pass without end, shuffling anew in each. \<open>dataset\<close> is
  what the first \<open>passes\<close> passes yield, in order; every element of the repeated
  sequence is in such a prefix.
\<close>

definition dataset ::
  "(nat \<Rightarrow> example list \<Rightarrow> example list) \<Rightarrow> nat list \<Rightarrow> example list \<Rightarrow> nat \<Rightarrow>
   (real list list \<times> real list) option list" where
  "dataset shuffle image_shape original_dataset passes =
     concat (map (\<lambda>p. dataset_pass (shuffle p) image_shape original_dataset) [0 ..< passes])"

section \<open>The training loop of the notebook\<close>

text \<open>
  \<^verbatim>\<open>
  data_iterator = iter(dataset)
  adam_opt = tf.optimizers.Adam(0.001)

  @tf.function
  def loss_cb(batch):
      loss_value = -model.elbo(batch)
      return loss_value

  @tf.function
  def optimization_step():
      batch = next(data_iterator)
      func = lambda: loss_cb(batch)
      adam_opt.minimize(func, var_list=model.trainable_variables)

  for _ in range(iterations):
      optimization_step()
  \<close>
  The step reads and writes three objects: the trainable variables of the model, the
  state of the optimizer and the position of the iterator. They are the state, passed
  through each step.

  The iterator, the objective \<open>model.elbo\<close> and \<open>Adam.minimize\<close> belong to libraries; each
  can raise. They are the fields of a record, each returning either an error (\<open>Inl\<close>) or
  its result (\<open>Inr\<close>). \<open>minimize\<close> receives the closure \<open>func\<close>, which reads the variables
  when the optimizer calls it.
\<close>

record ('p, 'o, 'i) training_state =
  trainable_variables :: 'p
  adam_opt :: 'o
  data_iterator :: 'i

record ('p, 'o, 'i, 'b, 'r, 'err) libraries =
  iterator_next :: "'i \<Rightarrow> 'err + ('b \<times> 'i)"
  model_elbo :: "'p \<Rightarrow> 'b \<Rightarrow> 'err + 'r"
  minimize :: "'o \<Rightarrow> ('p \<Rightarrow> 'err + 'r) \<Rightarrow> 'p \<Rightarrow> 'err + ('o \<times> 'p)"

definition loss_cb ::
  "('p, 'o, 'i, 'b, 'r::uminus, 'err) libraries \<Rightarrow> 'p \<Rightarrow> 'b \<Rightarrow> 'err + 'r" where
  "loss_cb lib variables batch_arg =
     (case model_elbo lib variables batch_arg of
        Inl e \<Rightarrow> Inl e
      | Inr elbo_value \<Rightarrow> (let loss_value = - elbo_value in Inr loss_value))"

definition optimization_step ::
  "('p, 'o, 'i, 'b, 'r::uminus, 'err) libraries \<Rightarrow> ('p, 'o, 'i) training_state \<Rightarrow>
   'err + ('p, 'o, 'i) training_state" where
  "optimization_step lib s =
     (case iterator_next lib (data_iterator s) of
        Inl e \<Rightarrow> Inl e
      | Inr (batch_drawn, iterator') \<Rightarrow>
          (let func = (\<lambda>variables. loss_cb lib variables batch_drawn)
           in case minimize lib (adam_opt s) func (trainable_variables s) of
                Inl e \<Rightarrow> Inl e
              | Inr (opt', variables') \<Rightarrow>
                  Inr \<lparr>trainable_variables = variables', adam_opt = opt',
                       data_iterator = iterator'\<rparr>))"

text \<open>The body of the \<open>for\<close> loop, run \<open>n\<close> times; an error ends the loop.\<close>

fun training_loop ::
  "('p, 'o, 'i, 'b, 'r::uminus, 'err) libraries \<Rightarrow> nat \<Rightarrow> ('p, 'o, 'i) training_state \<Rightarrow>
   'err + ('p, 'o, 'i) training_state" where
  "training_loop lib 0 s = Inr s"
| "training_loop lib (Suc n) s =
     (case optimization_step lib s of
        Inl e \<Rightarrow> Inl e
      | Inr s' \<Rightarrow> training_loop lib n s')"

text \<open>
  \<open>range(iterations)\<close> of a Python integer has \<open>iterations\<close> elements, and none when
  \<open>iterations\<close> is zero or negative.
\<close>

definition training ::
  "('p, 'o, 'i, 'b, 'r::uminus, 'err) libraries \<Rightarrow> int \<Rightarrow> ('p, 'o, 'i) training_state \<Rightarrow>
   'err + ('p, 'o, 'i) training_state" where
  "training lib iterations s = training_loop lib (nat iterations) s"

section \<open>Concrete instances\<close>

text \<open>
  A dataset of seventy examples with two-pixel images, enough for two full batches and a
  remainder of six in each pass.
\<close>

definition small_dataset :: "example list" where
  "small_dataset = map (\<lambda>i. \<lparr>feat_image = [i, i + 1], feat_label = i mod 10\<rparr>) [0 ..< 70]"

text \<open>
  Libraries over integers: the iterator counts its batches, the objective overflows on
  batch \<open>0\<close>, and \<open>minimize\<close> evaluates the closure it is given, raising what the closure
  raises.
\<close>

definition overflowing_libraries :: "(int, nat, nat, nat, int, string) libraries" where
  "overflowing_libraries =
     \<lparr>iterator_next = (\<lambda>i. Inr (i, Suc i)),
      model_elbo = (\<lambda>p b. if b = 0 then Inl ''overflow'' else Inr (p + int b)),
      minimize = (\<lambda>opt func p. case func p of Inl e \<Rightarrow> Inl e | Inr v \<Rightarrow> Inr (Suc opt, p - v))\<rparr>"

section \<open>Batches and rows\<close>

declare batch.simps [simp del]

lemma batch_lengths: "c \<in> set (batch n True xs) \<Longrightarrow> length c = n"
proof (induction n True xs rule: batch.induct)
  case (1 n xs)
  then show ?case
    by (subst (asm) (2) batch.simps) (auto split: if_splits)
qed

lemma length_batch: "length (batch n True xs) = length xs div n"
proof (induction n True xs rule: batch.induct)
  case (1 n xs)
  show ?case
  proof (cases "n = 0 \<or> xs = [] \<or> length xs < n")
    case True
    then show ?thesis by (subst batch.simps) auto
  next
    case False
    then have "length (batch n True xs) = Suc (length (drop n xs) div n)"
      using 1 by (subst batch.simps) simp
    also have "\<dots> = length xs div n"
      using False by (simp add: le_div_geq)
    finally show ?thesis .
  qed
qed

lemma set_batch: "c \<in> set (batch n d xs) \<Longrightarrow> set c \<subseteq> set xs"
proof (induction n d xs rule: batch.induct)
  case (1 n d xs)
  show ?case
  proof (cases "n = 0 \<or> xs = [] \<or> length xs < n")
    case True
    with "1.prems" show ?thesis
      by (subst (asm) batch.simps) (auto split: if_splits)
  next
    case False
    with "1.prems" have "c = take n xs \<or> c \<in> set (batch n d (drop n xs))"
      by (subst (asm) batch.simps) auto
    then show ?thesis
    proof
      assume "c = take n xs"
      then show ?thesis by (simp add: set_take_subset)
    next
      assume "c \<in> set (batch n d (drop n xs))"
      with False "1.IH" have "set c \<subseteq> set (drop n xs)" by simp
      then show ?thesis using set_drop_subset by fastforce
    qed
  qed
qed

text \<open>Cutting the concatenation of rows of one length gives the rows back.\<close>

lemma batch_concat_rows:
  "0 < n \<Longrightarrow> \<forall>r\<in>set rows. length r = n \<Longrightarrow> batch n False (concat rows) = rows"
proof (induction rows)
  case Nil
  then show ?case by (subst batch.simps) simp
next
  case (Cons r rows)
  then show ?case by (subst batch.simps) auto
qed

text \<open>\<open>map_fn\<close> keeps the number of examples of a batch, for images of the declared shape.\<close>

lemma map_fn_stack:
  assumes "\<forall>ex\<in>set exs. length (feat_image ex) = image_size image_shape"
    and "0 < image_size image_shape"
  shows "\<exists>imgs lbls. map_fn image_shape (stack exs) = Some (imgs, lbls) \<and>
           length imgs = length exs \<and> length lbls = length exs"
proof -
  let ?image = "map (map (\<lambda>p. to_default_float p / 255)) (map feat_image exs)"
  have rows: "\<forall>r\<in>set ?image. length r = image_size image_shape"
    using assms(1) by auto
  then have len: "length (concat ?image) = length exs * image_size image_shape"
    by (induction exs) auto
  have "reshape (concat ?image) (image_size image_shape) = Some ?image"
    unfolding reshape_def using assms(2) len batch_concat_rows [OF assms(2) rows] by simp
  then show ?thesis
    by (simp add: map_fn_def stack_def)
qed

lemma dataset_pass_sizes:
  assumes "mset (shuffle original_dataset) = mset original_dataset"
    and "\<forall>ex\<in>set original_dataset. length (feat_image ex) = image_size image_shape"
    and "0 < image_size image_shape"
  shows "\<forall>b\<in>set (dataset_pass shuffle image_shape original_dataset).
           \<exists>imgs lbls. b = Some (imgs, lbls) \<and> length imgs = batch_size \<and> length lbls = batch_size"
    and "length (dataset_pass shuffle image_shape original_dataset) = length original_dataset div batch_size"
proof -
  have same_set: "set (shuffle original_dataset) = set original_dataset"
    using assms(1) by (rule mset_eq_setD)
  have same_length: "length (shuffle original_dataset) = length original_dataset"
    using assms(1) by (rule mset_eq_length)
  show "\<forall>b\<in>set (dataset_pass shuffle image_shape original_dataset).
           \<exists>imgs lbls. b = Some (imgs, lbls) \<and> length imgs = batch_size \<and> length lbls = batch_size"
  proof
    fix b assume "b \<in> set (dataset_pass shuffle image_shape original_dataset)"
    then obtain c where c: "c \<in> set (batch batch_size True (shuffle original_dataset))"
      and b: "b = map_fn image_shape (stack c)"
      by (auto simp: dataset_pass_def)
    have "length c = batch_size" using c by (rule batch_lengths)
    moreover have "\<forall>ex\<in>set c. length (feat_image ex) = image_size image_shape"
      using set_batch [OF c] same_set assms(2) by auto
    ultimately show "\<exists>imgs lbls. b = Some (imgs, lbls) \<and> length imgs = batch_size \<and> length lbls = batch_size"
      using map_fn_stack [OF _ assms(3), of c] b by auto
  qed
  show "length (dataset_pass shuffle image_shape original_dataset) = length original_dataset div batch_size"
    by (simp add: dataset_pass_def length_batch same_length)
qed

lemma mset_rotate: "mset (rotate n xs) = mset xs"
proof -
  have "mset (drop k xs @ take k xs) = mset (take k xs @ drop k xs)" for k
    by (simp only: mset_append add.commute)
  then show ?thesis by (simp add: rotate_drop_take del: mset_append)
qed

section \<open>The linear kernel\<close>

lemma scaled_row:
  "sum_list (map2 (*) (map (\<lambda>t. t * v) x) x) = sum_list (map (\<lambda>t. t * t * (v::'a::comm_semiring_0)) x)"
  by (induction x) (simp_all add: mult_ac)

text \<open>The variances of the linear kernel are the diagonal of its covariance matrix.\<close>

lemma diag_Linear: "diag_part (Linear_K v X None) = Linear_K_diag v X"
proof (cases X)
  case Nil
  then show ?thesis
    by (simp add: diag_part_def Linear_K_def Linear_K_diag_def matmul_transpose_b_def)
next
  case (Cons x xs)
  have "diag_part (Linear_K v X None) = map (\<lambda>i. Linear_K v X None ! i ! i) [0..<length X]"
    using Cons by (simp add: diag_part_def Linear_K_def matmul_transpose_b_def)
  also have "\<dots> = map (\<lambda>i. sum_list (map (\<lambda>t. t * t * v) (X ! i))) [0..<length X]"
    by (rule map_cong) (simp_all add: Linear_K_def matmul_transpose_b_def scaled_row)
  also have "\<dots> = Linear_K_diag v X"
    unfolding Linear_K_diag_def by (rule nth_equalityI) simp_all
  finally show ?thesis .
qed

text \<open>An entry of the product of the scaled first batch with the transposed second.\<close>

lemma Linear_entry:
  "length x = length y \<Longrightarrow>
   sum_list (map2 (*) (map (\<lambda>t. t * v) x) y) = (v::'a::comm_semiring_0) * inner_product x y"
proof (induction x y rule: list_induct2)
  case Nil
  then show ?case by (simp add: inner_product_def)
next
  case (Cons a x b y)
  have "inner_product (a # x) (b # y) = a * b + inner_product x y"
    unfolding inner_product_def by (simp only: length_Cons sum.lessThan_Suc_shift) simp
  with Cons show ?case by (simp add: algebra_simps)
qed

text \<open>The shape of the covariance matrix of the linear kernel.\<close>

lemma Linear_K_shape:
  "length (Linear_K v X (Some Y)) = length X \<and>
   (\<forall>row\<in>set (Linear_K v X (Some Y)). length row = length Y)"
  by (auto simp: Linear_K_def matmul_transpose_b_def)

text \<open>Without rounding, the linear kernel as it is computed is the exact linear kernel.\<close>

lemma foldl_sum: "foldl (\<lambda>s t. s + t) a ts = a + sum_list (ts :: real list)"
  by (induction ts arbitrary: a) simp_all

lemma Linear_float_exact: "Linear_float (\<lambda>x. x) v = Linear v"
  by (auto simp: Linear_float_def Linear_def Linear_float_K_def Linear_K_def
      Linear_float_K_diag_def Linear_K_diag_def matmul_transpose_b_def rounded_sum_def
      foldl_sum fun_eq_iff split: option.splits)

text \<open>The default float nearest to \<open>0.7\<close>.\<close>

lemma float64_seven_tenths: "float64 (7 / 10) = 3152519739159347 / 2 ^ 52"
  by code_simp

section \<open>Properties of the composite kernel\<close>

text \<open>
  Claim C1. For every pair of batches of raw inputs A and B, the full cross-covariance
  \<open>KernelWithConvNN.K(A, B)\<close> is \<open>base_kernel.K(cnn(A), cnn(B))\<close>: the network is applied to
  each batch and the two results go to the full-matrix mode of the base kernel.
\<close>

theorem K_transforms_both_batches:
  "KernelWithConvNN_K self A (Some B) =
     kernel_K (base_kernel self) (cnn self A) (Some (cnn self B))"
  by (simp add: KernelWithConvNN_K_def)

text \<open>
  Claim C2. For all inducing points Z and every batch A of raw inputs, the registered
  \<open>Kuf\<close> is the call \<open>base_kernel(Z, cnn(A))\<close>: the network is applied to A and not to Z.
  On the recording base kernel the result shows the arguments the base kernel received:
  Z itself and the transformed batch.
\<close>

theorem Kuf_transforms_only_raw_batch:
  "Kuf inducing_variable kern A =
     kernel_call (base_kernel kern) (Z inducing_variable) (Some (cnn kern A)) \<and>
   Kuf inducing_variable \<lparr>base_kernel = recording_kernel, cnn = cnn kern\<rparr> A =
     Called (Z inducing_variable) (Some (cnn kern A))"
  by (simp add: Kuf_def recording_kernel_def)

text \<open>
  Claim C3 says that \<open>K\<close>, called without a second batch, goes through the diagonal-only
  mode of the base kernel. It does not: on the recording base kernel, \<open>K(A, None)\<close> is the
  record of an entry through the full-matrix method \<open>K\<close> with the second argument absent,
  and on the linear kernel it is the whole two-by-two matrix with its off-diagonal entries.
\<close>

theorem K_without_second_batch_counterexample:
  "KernelWithConvNN_K \<lparr>base_kernel = recording_kernel, cnn = map (map Suc)\<rparr>
     [[1, 2], [3, 4]] None = Full_matrix [[2, 3], [4, 5]] None \<and>
   KernelWithConvNN_K \<lparr>base_kernel = recording_kernel, cnn = map (map Suc)\<rparr>
     [[1, 2], [3, 4]] None \<noteq> Diagonal_only [[2, 3], [4, 5]] \<and>
   KernelWithConvNN_K \<lparr>base_kernel = Linear (1::int), cnn = id\<rparr>
     [[1, 2], [3, 4]] None = [[5, 11], [11, 25]]"
  by (simp add: KernelWithConvNN_K_def recording_kernel_def Linear_def Linear_K_def
      matmul_transpose_b_def)

text \<open>
  Claim C3, as amended. When the second batch is absent, \<open>K\<close> transforms the first batch
  and hands it to the full-matrix method of the base kernel with the second argument still
  absent; the diagonal-only mode of the base kernel is what \<open>K_diag\<close> uses.
\<close>

theorem K_without_second_batch:
  "KernelWithConvNN_K self A None = kernel_K (base_kernel self) (cnn self A) None \<and>
   KernelWithConvNN_K_diag self A = kernel_K_diag (base_kernel self) (cnn self A)"
  by (simp add: KernelWithConvNN_K_def KernelWithConvNN_K_diag_def)

text \<open>
  Claim C4 says that for every batch A of raw inputs the diagonal of \<open>K(A, None)\<close> is
  \<open>K_diag(A)\<close> exactly. The composite kernel takes the one from the method \<open>K\<close> of its base
  kernel and the other from the method \<open>K_diag\<close>, and the two need not agree exactly. For
  the linear kernel as it is computed in the default float, with the variance \<open>0.7\<close> and
  the batch of the single point \<open>(1, 3)\<close>, the diagonal of \<open>K\<close> is \<open>7 - 2 ^ -50\<close> (printed
  \<open>6.999999999999999\<close>) and \<open>K_diag\<close> is \<open>7\<close>.
\<close>

theorem K_diag_consistent_counterexample:
  "diag_part (KernelWithConvNN_K
     \<lparr>base_kernel = Linear_float float64 (float64 (7 / 10)), cnn = id\<rparr> [[1, 3]] None) =
     [7 - 1 / 2 ^ 50] \<and>
   KernelWithConvNN_K_diag
     \<lparr>base_kernel = Linear_float float64 (float64 (7 / 10)), cnn = id\<rparr> [[1, 3]] = [7] \<and>
   diag_part (KernelWithConvNN_K
     \<lparr>base_kernel = Linear_float float64 (float64 (7 / 10)), cnn = id\<rparr> [[1, 3]] None) \<noteq>
   KernelWithConvNN_K_diag
     \<lparr>base_kernel = Linear_float float64 (float64 (7 / 10)), cnn = id\<rparr> [[1, 3]]"
proof -
  have full: "diag_part (KernelWithConvNN_K
     \<lparr>base_kernel = Linear_float float64 (float64 (7 / 10)), cnn = id\<rparr> [[1, 3]] None) =
     [7 - 1 / 2 ^ 50]"
    by code_simp
  have diag: "KernelWithConvNN_K_diag
     \<lparr>base_kernel = Linear_float float64 (float64 (7 / 10)), cnn = id\<rparr> [[1, 3]] = [7]"
    by code_simp
  show ?thesis unfolding full diag by simp
qed

text \<open>
  Claim C4, as amended. For every base kernel whose \<open>K_diag\<close> is exactly the diagonal of
  its own \<open>K(X, None)\<close>, and for every batch A of raw inputs, the diagonal of \<open>K(A, None)\<close>
  of the composite kernel is its \<open>K_diag(A)\<close> exactly.
\<close>

theorem K_diag_consistent:
  assumes "\<forall>X. diag_part (kernel_K (base_kernel self) X None) = kernel_K_diag (base_kernel self) X"
  shows "diag_part (KernelWithConvNN_K self A None) = KernelWithConvNN_K_diag self A"
  using assms by (simp add: KernelWithConvNN_K_def KernelWithConvNN_K_diag_def)

theorem K_diag_consistent_witness:
  "(\<forall>X. diag_part (kernel_K (Linear (1::int)) X None) = kernel_K_diag (Linear 1) X) \<and>
   diag_part (KernelWithConvNN_K \<lparr>base_kernel = Linear (1::int), cnn = map (map uminus)\<rparr>
     [[1, 2], [3, 4]] None) = [5, 25] \<and>
   KernelWithConvNN_K_diag \<lparr>base_kernel = Linear (1::int), cnn = map (map uminus)\<rparr>
     [[1, 2], [3, 4]] = [5, 25]"
proof -
  have contract: "\<forall>X. diag_part (kernel_K (Linear (1::int)) X None) = kernel_K_diag (Linear 1) X"
    by (simp add: Linear_def diag_Linear)
  have diag: "KernelWithConvNN_K_diag \<lparr>base_kernel = Linear (1::int), cnn = map (map uminus)\<rparr>
     [[1, 2], [3, 4]] = [5, 25]"
    by (simp add: KernelWithConvNN_K_diag_def Linear_def Linear_K_diag_def)
  have "diag_part (KernelWithConvNN_K \<lparr>base_kernel = Linear (1::int), cnn = map (map uminus)\<rparr>
     [[1, 2], [3, 4]] None) =
     KernelWithConvNN_K_diag \<lparr>base_kernel = Linear (1::int), cnn = map (map uminus)\<rparr>
       [[1, 2], [3, 4]]"
    by (rule K_diag_consistent) (simp add: contract)
  with contract diag show ?thesis by simp
qed

text \<open>
  Claim C5. For every inducing variable of the class \<open>KernelSpaceInducingPoints\<close>, every
  composite kernel and every jitter (given or absent), the registered \<open>Kuu\<close> returns what
  the implementation the dispatcher holds for \<open>(InducingPoints, Kernel)\<close> returns on the
  same inducing variable, the base kernel of the composite kernel and the same jitter.
\<close>

theorem Kuu_is_generic_Kuu_on_base_kernel:
  "Kuu dispatch inducing_variable kern jitter =
     dispatch InducingPoints_class Kernel_class inducing_variable (base_kernel kern) jitter"
  by (simp add: Kuu_def)

text \<open>
  Claim C6 says that for every batch A of raw inputs \<open>K(A, None)\<close> is \<open>K(A, A)\<close>. The
  composite kernel passes an absent second batch on as absent, and what the base kernel
  returns then is the base kernel's: on the white-noise kernel \<open>K(A, None)\<close> is the
  identity matrix and \<open>K(A, A)\<close> the matrix of zeros.
\<close>

theorem K_None_is_self_covariance_counterexample:
  "KernelWithConvNN_K \<lparr>base_kernel = White (1::int), cnn = id\<rparr> [[1, 2], [3, 4::int]] None =
     [[1, 0], [0, 1]] \<and>
   KernelWithConvNN_K \<lparr>base_kernel = White (1::int), cnn = id\<rparr> [[1, 2], [3, 4::int]]
     (Some [[1, 2], [3, 4]]) = [[0, 0], [0, 0]] \<and>
   KernelWithConvNN_K \<lparr>base_kernel = White (1::int), cnn = id\<rparr> [[1, 2], [3, 4::int]] None \<noteq>
   KernelWithConvNN_K \<lparr>base_kernel = White (1::int), cnn = id\<rparr> [[1, 2], [3, 4::int]]
     (Some [[1, 2], [3, 4]])"
  by (simp add: KernelWithConvNN_K_def White_def White_K_def upt_rec)

text \<open>
  Claim C6, as amended. For every base kernel that reads an absent second batch as the
  first one and whose \<open>K\<close> returns one row per point of the first batch and one column per
  point of the second, for every network that keeps the number of points of a batch, and
  for every batch A of N raw inputs, \<open>K(A, None)\<close> is \<open>K(A, A)\<close>, and it is a matrix of N
  rows of N entries each, not a vector of variances.
\<close>

theorem K_None_is_self_covariance:
  assumes "\<forall>X. kernel_K (base_kernel self) X None = kernel_K (base_kernel self) X (Some X)"
    and "\<forall>X Y. length (kernel_K (base_kernel self) X (Some Y)) = length X \<and>
           (\<forall>row\<in>set (kernel_K (base_kernel self) X (Some Y)). length row = length Y)"
    and "length (cnn self A) = length A"
  shows "KernelWithConvNN_K self A None = KernelWithConvNN_K self A (Some A) \<and>
         length (KernelWithConvNN_K self A None) = length A \<and>
         (\<forall>row\<in>set (KernelWithConvNN_K self A None). length row = length A)"
proof -
  have eq: "KernelWithConvNN_K self A None = KernelWithConvNN_K self A (Some A)"
    using assms(1) by (simp add: KernelWithConvNN_K_def Let_def)
  have full: "KernelWithConvNN_K self A (Some A) =
      kernel_K (base_kernel self) (cnn self A) (Some (cnn self A))"
    by (simp add: KernelWithConvNN_K_def)
  from assms(2) have
    "length (kernel_K (base_kernel self) (cnn self A) (Some (cnn self A))) = length (cnn self A)"
    "\<forall>row\<in>set (kernel_K (base_kernel self) (cnn self A) (Some (cnn self A))).
       length row = length (cnn self A)"
    by blast+
  with eq full assms(3) show ?thesis by simp
qed

theorem K_None_is_self_covariance_witness:
  "(\<forall>X. kernel_K (Linear (1::int)) X None = kernel_K (Linear 1) X (Some X)) \<and>
   length (map (map uminus) [[1, 2], [3, 4::int]]) = length [[1, 2], [3, 4::int]] \<and>
   KernelWithConvNN_K \<lparr>base_kernel = Linear (1::int), cnn = map (map uminus)\<rparr>
     [[1, 2], [3, 4]] None = [[5, 11], [11, 25]] \<and>
   KernelWithConvNN_K \<lparr>base_kernel = Linear (1::int), cnn = map (map uminus)\<rparr>
     [[1, 2], [3, 4]] (Some [[1, 2], [3, 4]]) = [[5, 11], [11, 25]] \<and>
   length (KernelWithConvNN_K \<lparr>base_kernel = Linear (1::int), cnn = map (map uminus)\<rparr>
     [[1, 2], [3, 4]] None) = 2"
proof -
  let ?k = "\<lparr>base_kernel = Linear (1::int), cnn = map (map uminus)\<rparr>"
  have contract: "\<forall>X. kernel_K (base_kernel ?k) X None = kernel_K (base_kernel ?k) X (Some X)"
    by (simp add: Linear_def Linear_K_def)
  have shape: "\<forall>X Y. length (kernel_K (base_kernel ?k) X (Some Y)) = length X \<and>
           (\<forall>row\<in>set (kernel_K (base_kernel ?k) X (Some Y)). length row = length Y)"
    using Linear_K_shape [where 'a = int] by (simp add: Linear_def)
  have keeps: "length (cnn ?k [[1, 2], [3, 4]]) = length [[1, 2], [3, 4::int]]"
    by simp
  have full: "KernelWithConvNN_K ?k [[1, 2], [3, 4]] (Some [[1, 2], [3, 4]]) = [[5, 11], [11, 25]]"
    by (simp add: KernelWithConvNN_K_def Linear_def Linear_K_def matmul_transpose_b_def)
  from K_None_is_self_covariance [OF contract shape keeps] contract full
  show ?thesis by simp
qed

text \<open>
  Claim C9. With the identity as transform and the linear kernel as base kernel, \<open>K\<close> on a
  batch of two vectors \<open>x\<close> and \<open>y\<close> of one dimension is the Gram matrix of the two vectors
  under the linear kernel, whether the second batch is absent or is the batch again.
  Arithmetic is exact (any commutative semiring).
\<close>

theorem K_identity_linear_is_gram:
  assumes "length x = length y"
  shows "KernelWithConvNN_K \<lparr>base_kernel = Linear variance, cnn = id\<rparr> [x, y] None =
           linear_gram variance x y \<and>
         KernelWithConvNN_K \<lparr>base_kernel = Linear variance, cnn = id\<rparr> [x, y] (Some [x, y]) =
           linear_gram variance x y"
  using assms
  by (simp add: KernelWithConvNN_K_def Linear_def Linear_K_def matmul_transpose_b_def
      linear_gram_def Linear_entry)

theorem K_identity_linear_is_gram_witness:
  "length [1, 2 :: real] = length [3, 4 :: real] \<and>
   KernelWithConvNN_K \<lparr>base_kernel = Linear (1::real), cnn = id\<rparr> [[1, 2], [3, 4]] None =
     [[5, 11], [11, 25]] \<and>
   linear_gram (1::real) [1, 2] [3, 4] = [[5, 11], [11, 25]]"
proof -
  have len: "length [1, 2 :: real] = length [3, 4 :: real]" by simp
  have gram: "linear_gram (1::real) [1, 2] [3, 4] = [[5, 11], [11, 25]]"
    by (simp add: linear_gram_def inner_product_def lessThan_Suc)
  from K_identity_linear_is_gram [OF len, of 1] len gram show ?thesis by simp
qed

section \<open>Properties of the dataset and of the training loop\<close>

text \<open>
  Claim C7. Every batch drawn from the dataset has exactly 32 images and 32 labels, in
  every pass of the repeated, shuffled sequence, and a pass yields as many batches as
  there are full groups of 32 examples: a last group of fewer examples is dropped. The
  hypotheses say that a shuffle reorders the examples and that each image has the
  declared shape, of at least one pixel.
\<close>

theorem every_batch_has_batch_size:
  assumes "\<forall>p. mset (shuffle p original_dataset) = mset original_dataset"
    and "\<forall>ex\<in>set original_dataset. length (feat_image ex) = image_size image_shape"
    and "0 < image_size image_shape"
  shows "(\<forall>b\<in>set (dataset shuffle image_shape original_dataset passes).
            \<exists>imgs lbls. b = Some (imgs, lbls) \<and> length imgs = 32 \<and> length lbls = 32) \<and>
         length (dataset shuffle image_shape original_dataset passes) =
           passes * (length original_dataset div 32)"
proof
  have sizes: "\<forall>b\<in>set (dataset_pass (shuffle p) image_shape original_dataset).
      \<exists>imgs lbls. b = Some (imgs, lbls) \<and> length imgs = batch_size \<and> length lbls = batch_size" for p
    using assms by (intro dataset_pass_sizes(1)) simp_all
  have count: "length (dataset_pass (shuffle p) image_shape original_dataset) =
      length original_dataset div batch_size" for p
    using assms by (intro dataset_pass_sizes(2)) simp_all
  show "\<forall>b\<in>set (dataset shuffle image_shape original_dataset passes).
            \<exists>imgs lbls. b = Some (imgs, lbls) \<and> length imgs = 32 \<and> length lbls = 32"
    using sizes by (auto simp: dataset_def batch_size_def)
  have "length (dataset shuffle image_shape original_dataset n) =
      n * (length original_dataset div 32)" for n
    by (induction n) (simp_all add: dataset_def count batch_size_def)
  then show "length (dataset shuffle image_shape original_dataset passes) =
           passes * (length original_dataset div 32)" .
qed

theorem every_batch_has_batch_size_witness:
  "(\<forall>p. mset (rotate p small_dataset) = mset small_dataset) \<and>
   0 < image_size [2, 1] \<and>
   length (dataset rotate [2, 1] small_dataset 2) = 4 \<and>
   map (map_option (\<lambda>(imgs, lbls). (length imgs, length lbls)))
     (dataset rotate [2, 1] small_dataset 2) = replicate 4 (Some (32, 32))"
proof -
  have shuffled: "\<forall>p. mset (rotate p small_dataset) = mset small_dataset"
    by (simp add: mset_rotate)
  have shapes: "\<forall>ex\<in>set small_dataset. length (feat_image ex) = image_size [2, 1]"
    by (auto simp: small_dataset_def image_size_def)
  have positive: "0 < image_size [2, 1]"
    by (simp add: image_size_def)
  have drawn: "map (map_option (\<lambda>(imgs, lbls). (length imgs, length lbls)))
     (dataset rotate [2, 1] small_dataset 2) = replicate 4 (Some (32, 32))"
    by code_simp
  have "length small_dataset = 70" by (simp add: small_dataset_def)
  with every_batch_has_batch_size [where shuffle = rotate and original_dataset = small_dataset
      and image_shape = "[2, 1]" and passes = 2, OF shuffled shapes positive] shuffled positive drawn
  show ?thesis by simp
qed

text \<open>
  Claim C8. The training loop run for zero iterations returns the state it was given: the
  trainable variables of the model, whatever they are, the state of the optimizer and the
  position of the iterator are unchanged, and no step is taken.
\<close>

theorem zero_iterations_change_nothing:
  "training lib 0 s = Inr s"
  by (simp add: training_def)

text \<open>
  Claim C10. An error of the objective or of the optimizer is neither caught nor retried.
  Once the iterator has yielded a batch, \<open>optimization_step\<close> raises an error exactly when
  \<open>minimize\<close>, which evaluates the objective through the closure it is given, raises that
  error; \<open>loss_cb\<close> raises exactly the errors of \<open>model.elbo\<close>; and an error of a step is the
  outcome of the loop.
\<close>

theorem optimization_step_propagates_errors:
  assumes "iterator_next lib (data_iterator s) = Inr (b, it')"
  shows "(optimization_step lib s = Inl e \<longleftrightarrow>
            minimize lib (adam_opt s) (\<lambda>variables. loss_cb lib variables b)
              (trainable_variables s) = Inl e) \<and>
         (loss_cb lib v b = Inl e \<longleftrightarrow> model_elbo lib v b = Inl e) \<and>
         (optimization_step lib s = Inl e \<longrightarrow> training_loop lib (Suc n) s = Inl e)"
  using assms
  by (auto simp: optimization_step_def loss_cb_def split: sum.splits prod.splits)

theorem optimization_step_propagates_errors_witness:
  "iterator_next overflowing_libraries 0 = Inr (0, 1) \<and>
   model_elbo overflowing_libraries 5 0 = Inl ''overflow'' \<and>
   loss_cb overflowing_libraries 5 0 = Inl ''overflow'' \<and>
   optimization_step overflowing_libraries
     \<lparr>trainable_variables = 5, adam_opt = 0, data_iterator = 0\<rparr> = Inl ''overflow'' \<and>
   training_loop overflowing_libraries (Suc 99)
     \<lparr>trainable_variables = 5, adam_opt = 0, data_iterator = 0\<rparr> = Inl ''overflow''"
proof -
  have next_ok: "iterator_next overflowing_libraries
      (data_iterator \<lparr>trainable_variables = 5::int, adam_opt = 0::nat, data_iterator = 0::nat\<rparr>) =
      Inr (0, 1)"
    by (simp add: overflowing_libraries_def)
  have raised: "minimize overflowing_libraries 0
      (\<lambda>variables. loss_cb overflowing_libraries variables 0) 5 = Inl ''overflow''"
    by (simp add: overflowing_libraries_def loss_cb_def)
  from optimization_step_propagates_errors [OF next_ok, of "''overflow''" 5 99] next_ok raised
  show ?thesis by (simp add: overflowing_libraries_def)
qed

end
